theory Spec2Isabelle
  imports Main "HOL-Library.AList" "HOL-Library.Word"
begin

section \<open>The messenger server: data model\<close>

text \<open>
  The values that travel in envelope fields and are stored in client records. A field that is
  absent reads as \<open>JUndefined\<close>. An object or an array produced by the platform's parser is
  \<open>JRef i j t\<close>: \<open>i\<close> is the identity of its allocation, by which the server compares such
  values (as keys of \<open>rooms\<close>, and with \<open>===\<close>); \<open>j\<close> tells whether \<open>JSON.stringify\<close> returns on
  an envelope that holds it (it throws a \<open>RangeError\<close> on a value nested too deep); \<open>t\<close> tells
  whether its conversion to a string in a template literal returns (it throws a \<open>TypeError\<close>
  for an object such as \<open>{"toString": 1}\<close>). The server never looks inside otherwise. Numbers
  are kept as integers; the server only tests them for being zero and compares them.
\<close>

datatype jsval = JUndefined | JNull | JBool bool | JNum int | JStr string | JRef nat bool bool

text \<open>JavaScript truthiness, as used by \<open>!client.userId\<close>, \<open>client.roomId\<close> and \<open>filter(Boolean)\<close>.\<close>

fun truthy :: "jsval \<Rightarrow> bool" where
  "truthy JUndefined = False"
| "truthy JNull = False"
| "truthy (JBool b) = b"
| "truthy (JNum n) = (n \<noteq> 0)"
| "truthy (JStr s) = (s \<noteq> [])"
| "truthy (JRef i j t) = True"

text \<open>\<open>JSON.stringify\<close> returns on every primitive value.\<close>

fun stringify_ok :: "jsval \<Rightarrow> bool" where
  "stringify_ok (JRef i j t) = j"
| "stringify_ok v = True"

text \<open>\<open>`${v}`\<close> returns on every primitive value.\<close>

fun to_string_ok :: "jsval \<Rightarrow> bool" where
  "to_string_ok (JRef i j t) = t"
| "to_string_ok v = True"

type_synonym clientId = string

text \<open>
  An entry of the \<open>clients\<close> map: \<open>{ ws, userId, roomId }\<close>. Of the transport \<open>ws\<close> the server
  reads only \<open>readyState\<close> (1 is OPEN, 2 is CLOSING) and calls \<open>send\<close>; a call of \<open>send\<close> is
  recorded in the output with the connection it belongs to.
\<close>

record client =
  userId :: jsval
  roomId :: jsval
  readyState :: nat

text \<open>
  The objects handed to \<open>JSON.stringify\<close> and sent. The last field of most of them is
  \<open>timestamp: Date.now()\<close>; it is kept as the number of the clock reading (the n-th call of
  \<open>Date.now()\<close> made by the server).
\<close>

datatype envelope =
    Connected clientId nat
  | ErrorEnv string
  | Registered jsval nat
  | JoinedRoom jsval "jsval list" nat
  | UserJoined jsval nat
  | UserLeft jsval nat
  | ChatMessage jsval jsval jsval nat
  | Signaling jsval jsval jsval nat
  | IncomingCall jsval jsval nat
  | CallResponse jsval jsval nat
  | CallEnded jsval nat

text \<open>\<open>JSON.stringify\<close> returns on an envelope when it returns on each value the envelope holds.\<close>

fun JSON_stringify_returns :: "envelope \<Rightarrow> bool" where
  "JSON_stringify_returns (Connected c t) = True"
| "JSON_stringify_returns (ErrorEnv e) = True"
| "JSON_stringify_returns (Registered u t) = stringify_ok u"
| "JSON_stringify_returns (JoinedRoom r us t) = (stringify_ok r \<and> list_all stringify_ok us)"
| "JSON_stringify_returns (UserJoined u t) = stringify_ok u"
| "JSON_stringify_returns (UserLeft u t) = stringify_ok u"
| "JSON_stringify_returns (ChatMessage u m e t) = (stringify_ok u \<and> stringify_ok m \<and> stringify_ok e)"
| "JSON_stringify_returns (Signaling ty u d t) = (stringify_ok ty \<and> stringify_ok u \<and> stringify_ok d)"
| "JSON_stringify_returns (IncomingCall u c t) = (stringify_ok u \<and> stringify_ok c)"
| "JSON_stringify_returns (CallResponse u a t) = (stringify_ok u \<and> stringify_ok a)"
| "JSON_stringify_returns (CallEnded u t) = stringify_ok u"

type_synonym out = "clientId \<times> envelope"

text \<open>
  The two module-level maps. \<open>clients\<close> is iterated by \<open>findClientByUserId\<close>, so it keeps its
  insertion order; \<open>rooms\<close> is only looked up by key, each room being a \<open>Set\<close> of client ids in
  insertion order. \<open>ticks\<close> counts the clock readings made so far. \<open>crashed\<close> is set when an
  exception has left an event handler that nothing catches: the process has ended.
\<close>

record server =
  clients :: "(clientId \<times> client) list"
  rooms :: "jsval \<rightharpoonup> clientId list"
  ticks :: nat
  crashed :: bool

definition init :: server where
  "init = \<lparr> clients = [], rooms = Map.empty, ticks = 0, crashed = False \<rparr>"

text \<open>
  A parsed inbound envelope is read through its properties only: \<open>message.type\<close> is
  \<open>m ''type''\<close>. \<open>JSON.parse\<close> may also return \<open>null\<close>, whose properties cannot be read.
\<close>

type_synonym message = "string \<Rightarrow> jsval"

datatype parsed = PNull | PValue message

definition obj :: "(string \<times> jsval) list \<Rightarrow> message" where
  "obj kvs k = (case map_of kvs k of None \<Rightarrow> JUndefined | Some v \<Rightarrow> v)"

text \<open>
  What a handler can throw: the read of \<open>client.ws\<close> with no client, the read of
  \<open>message.type\<close> of \<open>null\<close>, \<open>JSON.stringify\<close>, and the string conversion in the template
  literal of a log line. A handler gives the state it leaves, what it has sent, and what it
  threw if it did: the writes and sends made before a throw stay.
\<close>

datatype js_error = UndefinedClient | NullMessage | StringifyError | ToStringError

type_synonym result = "server \<times> out list \<times> js_error option"

section \<open>The messenger server: operations\<close>

text \<open>\<open>Set.prototype.add\<close> and \<open>Set.prototype.delete\<close> on a set kept in insertion order.\<close>

definition set_add :: "'a \<Rightarrow> 'a list \<Rightarrow> 'a list" where
  "set_add x xs = (if x \<in> set xs then xs else xs @ [x])"

definition set_delete :: "'a \<Rightarrow> 'a list \<Rightarrow> 'a list" where
  "set_delete x xs = removeAll x xs"

definition Date_now :: "server \<Rightarrow> nat \<times> server" where
  "Date_now s = (ticks s, s\<lparr>ticks := Suc (ticks s)\<rparr>)"

definition findClientByUserId :: "server \<Rightarrow> jsval \<Rightarrow> (clientId \<times> client) option" where
  "findClientByUserId s uid = find (\<lambda>(cid, c). userId c = uid) (clients s)"

definition is_open :: "server \<Rightarrow> clientId \<Rightarrow> bool" where
  "is_open s cid = (case map_of (clients s) cid of None \<Rightarrow> False | Some c \<Rightarrow> readyState c = 1)"

text \<open>
  \<open>broadcastToRoom(roomId, message, excludeClientId = null)\<close>: returns at once when the room
  is not stored; otherwise the message is serialized once, before the loop, and that one
  string is sent to every member other than the excluded one that has a client record with
  an OPEN transport.
\<close>

definition broadcastToRoom ::
  "jsval \<Rightarrow> envelope \<Rightarrow> clientId option \<Rightarrow> server \<Rightarrow> js_error + out list" where
  "broadcastToRoom rid msg excludeClientId s =
     (case rooms s rid of
        None \<Rightarrow> Inr []
      | Some room \<Rightarrow>
          if \<not> JSON_stringify_returns msg then Inl StringifyError
          else Inr (map (\<lambda>cId. (cId, msg))
                     (filter (\<lambda>cId. Some cId \<noteq> excludeClientId \<and> is_open s cId) room)))"

text \<open>
  \<open>leaveRoom\<close>: a throw of the user-left broadcast comes after \<open>room.delete(clientId)\<close> and
  before the clean-up of the empty room and the reset of \<open>client.roomId\<close>, which are skipped.
\<close>

definition leaveRoom :: "clientId \<Rightarrow> jsval \<Rightarrow> server \<Rightarrow> result" where
  "leaveRoom cid rid s =
     (let client = map_of (clients s) cid;
          (s1, sent, thrown) =
            (case rooms s rid of
               None \<Rightarrow> (s, [], None)
             | Some room \<Rightarrow>
                 let room' = set_delete cid room;
                     sa = s\<lparr>rooms := (rooms s)(rid \<mapsto> room')\<rparr>;
                     (sb, notified) =
                       (case client of
                          None \<Rightarrow> (sa, Inr [])
                        | Some c \<Rightarrow>
                            if truthy (userId c)
                            then (let (t, sa') = Date_now sa
                                  in (sa', broadcastToRoom rid (UserLeft (userId c) t) None sa'))
                            else (sa, Inr []))
                 in (case notified of
                       Inl e \<Rightarrow> (sb, [], Some e)
                     | Inr sent \<Rightarrow>
                         (if room' = [] then sb\<lparr>rooms := (rooms sb)(rid := None)\<rparr> else sb,
                          sent, None)))
      in (case thrown of
            Some e \<Rightarrow> (s1, sent, Some e)
          | None \<Rightarrow>
              (case client of
                 None \<Rightarrow> (s1, sent, None)
               | Some c \<Rightarrow>
                   (s1\<lparr>clients := AList.update cid (c\<lparr>roomId := JNull\<rparr>) (clients s1)\<rparr>,
                    sent, None))))"

definition handleRegister :: "clientId \<Rightarrow> jsval \<Rightarrow> server \<Rightarrow> result" where
  "handleRegister cid uid s =
     (case map_of (clients s) cid of
        None \<Rightarrow> (s, [], None)
      | Some c \<Rightarrow>
          let s1 = s\<lparr>clients := AList.update cid (c\<lparr>userId := uid\<rparr>) (clients s)\<rparr>;
              (t, s2) = Date_now s1;
              registered = Registered uid t
          in if \<not> JSON_stringify_returns registered then (s2, [], Some StringifyError)
             else if \<not> to_string_ok uid then (s2, [(cid, registered)], Some ToStringError)
             else (s2, [(cid, registered)], None))"

definition handleJoinRoom :: "clientId \<Rightarrow> jsval \<Rightarrow> server \<Rightarrow> result" where
  "handleJoinRoom cid rid s =
     (case map_of (clients s) cid of
        None \<Rightarrow> (s, [], Some UndefinedClient)
      | Some c \<Rightarrow>
          if \<not> truthy (userId c)
          then (s, [(cid, ErrorEnv ''Must register before joining room'')], None)
          else
            let (s1, sent1, thrown1) =
                  (if truthy (roomId c) then leaveRoom cid (roomId c) s else (s, [], None))
            in (case thrown1 of
                  Some e \<Rightarrow> (s1, sent1, Some e)
                | None \<Rightarrow>
                    let room = set_add cid (case rooms s1 rid of None \<Rightarrow> [] | Some r \<Rightarrow> r);
                        s2 = s1\<lparr>rooms := (rooms s1)(rid \<mapsto> room),
                                clients := AList.update cid (c\<lparr>roomId := rid\<rparr>) (clients s1)\<rparr>;
                        usersInRoom =
                          filter truthy
                            (map (\<lambda>cId. case map_of (clients s2) cId of
                                           None \<Rightarrow> JUndefined | Some cl \<Rightarrow> userId cl) room);
                        (t3, s3) = Date_now s2;
                        joined = JoinedRoom rid usersInRoom t3
                    in if \<not> JSON_stringify_returns joined then (s3, sent1, Some StringifyError)
                       else
                         let (t4, s4) = Date_now s3
                         in (case broadcastToRoom rid (UserJoined (userId c) t4) (Some cid) s4 of
                               Inl e \<Rightarrow> (s4, sent1 @ [(cid, joined)], Some e)
                             | Inr sent3 \<Rightarrow>
                                 (s4, sent1 @ [(cid, joined)] @ sent3,
                                  if to_string_ok (userId c) \<and> to_string_ok rid then None
                                  else Some ToStringError))))"

definition handleLeaveRoom :: "clientId \<Rightarrow> server \<Rightarrow> result" where
  "handleLeaveRoom cid s =
     (case map_of (clients s) cid of
        None \<Rightarrow> (s, [], None)
      | Some c \<Rightarrow> if truthy (roomId c) then leaveRoom cid (roomId c) s else (s, [], None))"

definition handleChatMessage :: "clientId \<Rightarrow> message \<Rightarrow> server \<Rightarrow> result" where
  "handleChatMessage cid m s =
     (case map_of (clients s) cid of
        None \<Rightarrow> (s, [], Some UndefinedClient)
      | Some c \<Rightarrow>
          if \<not> truthy (roomId c)
          then (s, [(cid, ErrorEnv ''Must be in a room to send messages'')], None)
          else
            let (t, s1) = Date_now s
            in (case broadcastToRoom (roomId c)
                       (ChatMessage (userId c) (m ''message'') (m ''encrypted'') t) None s1 of
                  Inl e \<Rightarrow> (s1, [], Some e)
                | Inr sent \<Rightarrow> (s1, sent, None)))"

definition handleWebRTCSignaling :: "clientId \<Rightarrow> message \<Rightarrow> server \<Rightarrow> result" where
  "handleWebRTCSignaling cid m s =
     (case map_of (clients s) cid of
        None \<Rightarrow> (s, [], None)
      | Some c \<Rightarrow>
          if \<not> truthy (roomId c) then (s, [], None)
          else
            (case findClientByUserId s (m ''targetUserId'') of
               None \<Rightarrow> (s, [(cid, ErrorEnv ''Target user not found'')], None)
             | Some (tid, target) \<Rightarrow>
                 let (t, s1) = Date_now s;
                     forwarded = Signaling (m ''type'') (userId c) (m ''data'') t
                 in if \<not> JSON_stringify_returns forwarded then (s1, [], Some StringifyError)
                    else (s1, [(tid, forwarded)], None)))"

definition handleCallUser :: "clientId \<Rightarrow> message \<Rightarrow> server \<Rightarrow> result" where
  "handleCallUser cid m s =
     (case map_of (clients s) cid of
        None \<Rightarrow> (s, [], None)
      | Some c \<Rightarrow>
          if \<not> truthy (userId c) then (s, [], None)
          else
            (case findClientByUserId s (m ''targetUserId'') of
               None \<Rightarrow> (s, [(cid, ErrorEnv ''Target user not found'')], None)
             | Some (tid, target) \<Rightarrow>
                 let (t, s1) = Date_now s;
                     forwarded = IncomingCall (userId c) (m ''callType'') t
                 in if \<not> JSON_stringify_returns forwarded then (s1, [], Some StringifyError)
                    else (s1, [(tid, forwarded)],
                          if to_string_ok (userId c) \<and> to_string_ok (m ''targetUserId'')
                          then None else Some ToStringError)))"

definition handleCallResponse :: "clientId \<Rightarrow> message \<Rightarrow> server \<Rightarrow> result" where
  "handleCallResponse cid m s =
     (case map_of (clients s) cid of
        None \<Rightarrow> (s, [], None)
      | Some c \<Rightarrow>
          if \<not> truthy (userId c) then (s, [], None)
          else
            (case findClientByUserId s (m ''targetUserId'') of
               None \<Rightarrow> (s, [], None)
             | Some (tid, target) \<Rightarrow>
                 let (t, s1) = Date_now s;
                     forwarded = CallResponse (userId c) (m ''accepted'') t
                 in if \<not> JSON_stringify_returns forwarded then (s1, [], Some StringifyError)
                    else (s1, [(tid, forwarded)],
                          if to_string_ok (userId c) then None else Some ToStringError)))"

definition handleEndCall :: "clientId \<Rightarrow> message \<Rightarrow> server \<Rightarrow> result" where
  "handleEndCall cid m s =
     (case map_of (clients s) cid of
        None \<Rightarrow> (s, [], None)
      | Some c \<Rightarrow>
          if \<not> truthy (userId c) then (s, [], None)
          else
            (case findClientByUserId s (m ''targetUserId'') of
               None \<Rightarrow> (s, [], None)
             | Some (tid, target) \<Rightarrow>
                 let (t, s1) = Date_now s;
                     forwarded = CallEnded (userId c) t
                 in if \<not> JSON_stringify_returns forwarded then (s1, [], Some StringifyError)
                    else (s1, [(tid, forwarded)],
                          if to_string_ok (userId c) then None else Some ToStringError)))"

text \<open>
  \<open>handleMessage\<close>: the client record is looked up first and the function returns when there
  is none; only then is \<open>message.type\<close> read (a \<open>TypeError\<close> when the message is \<open>null\<close>) and
  the \<open>switch\<close> taken. An unknown type is put into the template literal of a log line and
  nothing else happens.
\<close>

definition handleMessage :: "clientId \<Rightarrow> parsed \<Rightarrow> server \<Rightarrow> result" where
  "handleMessage cid p s =
     (case map_of (clients s) cid of
        None \<Rightarrow> (s, [], None)
      | Some c \<Rightarrow>
          (case p of
             PNull \<Rightarrow> (s, [], Some NullMessage)
           | PValue m \<Rightarrow>
               if m ''type'' = JStr ''register'' then handleRegister cid (m ''userId'') s
               else if m ''type'' = JStr ''join-room'' then handleJoinRoom cid (m ''roomId'') s
               else if m ''type'' = JStr ''leave-room'' then handleLeaveRoom cid s
               else if m ''type'' = JStr ''chat-message'' then handleChatMessage cid m s
               else if m ''type'' = JStr ''webrtc-offer'' \<or> m ''type'' = JStr ''webrtc-answer''
                       \<or> m ''type'' = JStr ''webrtc-ice-candidate''
                    then handleWebRTCSignaling cid m s
               else if m ''type'' = JStr ''call-user'' then handleCallUser cid m s
               else if m ''type'' = JStr ''call-response'' then handleCallResponse cid m s
               else if m ''type'' = JStr ''end-call'' then handleEndCall cid m s
               else (s, [], if to_string_ok (m ''type'') then None else Some ToStringError)))"

text \<open>
  The handlers installed by \<open>wss.on('connection')\<close> for the connection \<open>cid\<close>. The frame
  arrives with the outcome of \<open>JSON.parse(data.toString())\<close>: \<open>None\<close> when the parser
  throws. The \<open>catch\<close> clause also receives what \<open>handleMessage\<close> throws; it sends its error
  envelope and undoes nothing. The close handler has no \<open>try\<close>: a throw of \<open>leaveRoom\<close> there
  skips \<open>clients.delete\<close> and ends the process.
\<close>

definition on_connection :: "clientId \<Rightarrow> server \<Rightarrow> server \<times> out list" where
  "on_connection cid s =
     (let s1 = s\<lparr>clients :=
                  AList.update cid \<lparr>userId = JNull, roomId = JNull, readyState = 1\<rparr> (clients s)\<rparr>;
          (t, s2) = Date_now s1
      in (s2, [(cid, Connected cid t)]))"

definition on_message :: "clientId \<Rightarrow> parsed option \<Rightarrow> server \<Rightarrow> server \<times> out list" where
  "on_message cid data s =
     (case data of
        None \<Rightarrow> (s, [(cid, ErrorEnv ''Invalid message format'')])
      | Some p \<Rightarrow>
          (case handleMessage cid p s of
             (s1, sent, None) \<Rightarrow> (s1, sent)
           | (s1, sent, Some e) \<Rightarrow> (s1, sent @ [(cid, ErrorEnv ''Invalid message format'')])))"

definition on_close :: "clientId \<Rightarrow> server \<Rightarrow> server \<times> out list" where
  "on_close cid s =
     (let (s1, sent, thrown) =
            (case map_of (clients s) cid of
               None \<Rightarrow> (s, [], None)
             | Some c \<Rightarrow> if truthy (roomId c) then leaveRoom cid (roomId c) s else (s, [], None))
      in (case thrown of
            Some e \<Rightarrow> (s1\<lparr>crashed := True\<rparr>, sent)
          | None \<Rightarrow> (s1\<lparr>clients := AList.delete cid (clients s1)\<rparr>, sent)))"

text \<open>
  Between the start of the closing handshake and the \<open>close\<close> event the transport of a
  connection is CLOSING; the platform sets this, the server only reads it.
\<close>

definition transport_closing :: "clientId \<Rightarrow> server \<Rightarrow> server" where
  "transport_closing cid s =
     (case map_of (clients s) cid of
        None \<Rightarrow> s
      | Some c \<Rightarrow> s\<lparr>clients := AList.update cid (c\<lparr>readyState := 2\<rparr>) (clients s)\<rparr>)"

datatype event =
    Connection clientId
  | Frame clientId "parsed option"
  | Closing clientId
  | Close clientId

text \<open>An event reaches the server only while its process runs.\<close>

definition step :: "event \<Rightarrow> server \<Rightarrow> server \<times> out list" where
  "step e s =
     (if crashed s then (s, [])
      else (case e of
              Connection cid \<Rightarrow> on_connection cid s
            | Frame cid data \<Rightarrow> on_message cid data s
            | Closing cid \<Rightarrow> (transport_closing cid s, [])
            | Close cid \<Rightarrow> on_close cid s))"

text \<open>The server runs one event to completion before the next; \<open>run\<close> collects what was sent.\<close>

fun run :: "event list \<Rightarrow> server \<Rightarrow> server \<times> out list" where
  "run [] s = (s, [])"
| "run (e # es) s = (let (s1, sent1) = step e s; (s2, sent2) = run es s1 in (s2, sent1 @ sent2))"

definition after :: "event list \<Rightarrow> server" where
  "after es = fst (run es init)"

section \<open>Notions used by the properties\<close>

text \<open>The member set of a room; a room that is not a key of \<open>rooms\<close> has no members.\<close>

definition members :: "server \<Rightarrow> jsval \<Rightarrow> clientId list" where
  "members s rid = (case rooms s rid of None \<Rightarrow> [] | Some room \<Rightarrow> room)"

text \<open>A stored room is a set: no connection id is in it twice.\<close>

definition rooms_distinct :: "server \<Rightarrow> bool" where
  "rooms_distinct s \<longleftrightarrow> (\<forall>rid room. rooms s rid = Some room \<longrightarrow> distinct room)"

subsection \<open>Concrete envelopes and histories\<close>

definition register_value :: "jsval \<Rightarrow> message" where
  "register_value v = obj [(''type'', JStr ''register''), (''userId'', v)]"

definition register :: "string \<Rightarrow> message" where
  "register u = register_value (JStr u)"

definition join_room :: "string \<Rightarrow> message" where
  "join_room r = obj [(''type'', JStr ''join-room''), (''roomId'', JStr r)]"

definition leave_room :: message where
  "leave_room = obj [(''type'', JStr ''leave-room'')]"

definition chat_value :: "jsval \<Rightarrow> message" where
  "chat_value v =
     obj [(''type'', JStr ''chat-message''), (''message'', v), (''encrypted'', JBool False)]"

definition chat_message :: "string \<Rightarrow> message" where
  "chat_message txt = chat_value (JStr txt)"

definition signal :: "string \<Rightarrow> string \<Rightarrow> message" where
  "signal ty target = obj [(''type'', JStr ty), (''targetUserId'', JStr target)]"

text \<open>A frame that parses to the envelope \<open>m\<close>.\<close>

definition Recv :: "clientId \<Rightarrow> message \<Rightarrow> event" where
  "Recv cid m = Frame cid (Some (PValue m))"

text \<open>Connection A opens.\<close>

definition alice_connected :: "event list" where
  "alice_connected = [Connection ''A'']"

text \<open>Then A registers as alice.\<close>

definition alice_registered :: "event list" where
  "alice_registered = alice_connected @ [Recv ''A'' (register ''alice'')]"

text \<open>Then A joins room r1.\<close>

definition alice_in_r1 :: "event list" where
  "alice_in_r1 = alice_registered @ [Recv ''A'' (join_room ''r1'')]"

text \<open>Then connection B registers as bob.\<close>

definition bob_registered :: "event list" where
  "bob_registered = alice_in_r1 @ [Connection ''B'', Recv ''B'' (register ''bob'')]"

text \<open>Then B joins r1 as well.\<close>

definition both_in_r1 :: "event list" where
  "both_in_r1 = bob_registered @ [Recv ''B'' (join_room ''r1'')]"

text \<open>Then the transport of B starts closing.\<close>

definition bob_closing :: "event list" where
  "bob_closing = both_in_r1 @ [Closing ''B'']"

text \<open>Connections A and B register as alice and bob and join no room.\<close>

definition two_registered :: "event list" where
  "two_registered = alice_registered @ [Connection ''B'', Recv ''B'' (register ''bob'')]"

text \<open>Connection A registers as alice, joins the room named by the empty string, then r1.\<close>

definition empty_then_r1 :: "event list" where
  "empty_then_r1 = alice_registered @ [Recv ''A'' (join_room []), Recv ''A'' (join_room ''r1'')]"

text \<open>
  An object nested so deep that \<open>JSON.stringify\<close> throws on it, such as
  \<open>{"a":{"a":{"a": ...}}}\<close>; its conversion to a string is \<open>[object Object]\<close>.
\<close>

definition nested :: jsval where
  "nested = JRef 0 False True"

text \<open>Connection A registers with that object as its \<open>userId\<close> and joins r1.\<close>

definition nested_in_r1 :: "event list" where
  "nested_in_r1 = alice_connected @ [Recv ''A'' (register_value nested), Recv ''A'' (join_room ''r1'')]"

text \<open>Then A sends leave-room.\<close>

definition nested_left_r1 :: "event list" where
  "nested_left_r1 = nested_in_r1 @ [Recv ''A'' leave_room]"

text \<open>
  An object such as \<open>{"toString": 1}\<close>: \<open>JSON.stringify\<close> returns on it, its conversion to a
  string throws.
\<close>

definition unprintable :: jsval where
  "unprintable = JRef 1 True False"

text \<open>Connection A registers with that object as its \<open>userId\<close>, connection B as bob.\<close>

definition unprintable_and_bob :: "event list" where
  "unprintable_and_bob =
     alice_connected @ [Recv ''A'' (register_value unprintable),
                        Connection ''B'', Recv ''B'' (register ''bob'')]"

text \<open>The \<open>users\<close> arrays of the joined-room envelopes sent to a connection.\<close>

fun users_of :: "envelope \<Rightarrow> jsval list option" where
  "users_of (JoinedRoom r us t) = Some us"
| "users_of _ = None"

definition joined_room_users :: "clientId \<Rightarrow> out list \<Rightarrow> jsval list list" where
  "joined_room_users cid sent =
     List.map_filter (\<lambda>(c, e). if c = cid then users_of e else None) sent"

section \<open>The encryption module\<close>

text \<open>
  \<open>encryptMessage\<close> and \<open>decryptMessage\<close> wrap the platform: the text encoder and decoder,
  AES-GCM of \<open>crypto.subtle\<close>, and \<open>btoa\<close>/\<open>atob\<close>. The platform is a parameter; what belongs
  to the module is the framing (the 12 bytes of IV in front of the ciphertext) and the two
  conversion loops between byte arrays and binary strings. A call of the platform that throws
  is \<open>None\<close>, and the module rethrows it. The random IV is an argument.
\<close>

type_synonym byte = "8 word"
type_synonym code_unit = "16 word"
type_synonym jsstring = "code_unit list"

record 'key platform =
  text_encode :: "jsstring \<Rightarrow> byte list"
  text_decode :: "byte list \<Rightarrow> jsstring"
  subtle_encrypt :: "'key \<Rightarrow> byte list \<Rightarrow> byte list \<Rightarrow> byte list option"
  subtle_decrypt :: "'key \<Rightarrow> byte list \<Rightarrow> byte list \<Rightarrow> byte list option"
  btoa :: "jsstring \<Rightarrow> jsstring option"
  atob :: "jsstring \<Rightarrow> jsstring option"

definition String_fromCharCode :: "byte \<Rightarrow> code_unit" where
  "String_fromCharCode b = ucast b"

text \<open>A store into a \<open>Uint8Array\<close> keeps the low eight bits.\<close>

definition Uint8_store :: "code_unit \<Rightarrow> byte" where
  "Uint8_store u = ucast u"

text \<open>The loop of \<open>arrayBufferToBase64\<close>: \<open>binary += String.fromCharCode(bytes[i])\<close>.\<close>

function binary_loop :: "byte list \<Rightarrow> nat \<Rightarrow> jsstring \<Rightarrow> jsstring" where
  "binary_loop bytes i binary =
     (if i < length bytes
      then binary_loop bytes (Suc i) (binary @ [String_fromCharCode (bytes ! i)])
      else binary)"
  by pat_completeness auto
termination
  by (relation "measure (\<lambda>(bytes, i, binary). length bytes - i)") auto

declare binary_loop.simps [simp del]

definition arrayBufferToBase64 :: "'key platform \<Rightarrow> byte list \<Rightarrow> jsstring option" where
  "arrayBufferToBase64 P buffer = btoa P (binary_loop buffer 0 [])"

text \<open>The loop of \<open>base64ToArrayBuffer\<close>: \<open>bytes[i] = binary.charCodeAt(i)\<close>.\<close>

function bytes_loop :: "jsstring \<Rightarrow> nat \<Rightarrow> byte list \<Rightarrow> byte list" where
  "bytes_loop binary i bytes =
     (if i < length binary
      then bytes_loop binary (Suc i) (bytes[i := Uint8_store (binary ! i)])
      else bytes)"
  by pat_completeness auto
termination
  by (relation "measure (\<lambda>(binary, i, bytes). length binary - i)") auto

declare bytes_loop.simps [simp del]

definition base64ToArrayBuffer :: "'key platform \<Rightarrow> jsstring \<Rightarrow> byte list option" where
  "base64ToArrayBuffer P base64 =
     (case atob P base64 of
        None \<Rightarrow> None
      | Some binary \<Rightarrow> Some (bytes_loop binary 0 (replicate (length binary) 0)))"

text \<open>\<open>dst.set(src, offset)\<close> for a source that fits, as both calls of the module do.\<close>

definition Uint8Array_set :: "byte list \<Rightarrow> byte list \<Rightarrow> nat \<Rightarrow> byte list" where
  "Uint8Array_set dst src offset = take offset dst @ src @ drop (offset + length src) dst"

definition encryptMessage ::
  "'key platform \<Rightarrow> jsstring \<Rightarrow> 'key \<Rightarrow> byte list \<Rightarrow> jsstring option" where
  "encryptMessage P message key iv =
     (let data = text_encode P message
      in case subtle_encrypt P key iv data of
           None \<Rightarrow> None
         | Some encryptedData \<Rightarrow>
             let result = replicate (length iv + length encryptedData) 0;
                 result = Uint8Array_set result iv 0;
                 result = Uint8Array_set result encryptedData (length iv)
             in arrayBufferToBase64 P result)"

definition decryptMessage :: "'key platform \<Rightarrow> jsstring \<Rightarrow> 'key \<Rightarrow> jsstring option" where
  "decryptMessage P encryptedMessage key =
     (case base64ToArrayBuffer P encryptedMessage of
        None \<Rightarrow> None
      | Some data \<Rightarrow>
          let iv = take 12 data;
              encryptedData = drop 12 data
          in case subtle_decrypt P key iv encryptedData of
               None \<Rightarrow> None
             | Some decryptedData \<Rightarrow> Some (text_decode P decryptedData))"

text \<open>\<open>decryptMessage(encryptMessage(message, key), key)\<close>, with the IV that was drawn.\<close>

definition round_trip :: "'key platform \<Rightarrow> jsstring \<Rightarrow> 'key \<Rightarrow> byte list \<Rightarrow> jsstring option" where
  "round_trip P message key iv =
     (case encryptMessage P message key iv of
        None \<Rightarrow> None
      | Some encrypted \<Rightarrow> decryptMessage P encrypted key)"

subsection \<open>A platform to run the module on\<close>

text \<open>
  The text encoder and decoder below are not code of the repository: they follow the
  Encoding Standard, which defines \<open>new TextEncoder().encode\<close> and
  \<open>new TextDecoder().decode\<close>. The encoder turns the string into scalar values, a surrogate
  pair into one and a surrogate without its partner into U+FFFD, and writes their UTF-8
  bytes. The decoder drops a byte order mark at the start, then runs the standard's UTF-8
  decoder: a state of the code point being built, the bytes seen and needed for it and the
  bounds of the next byte; an ill-formed part gives U+FFFD and the byte that ended it is
  read again.
\<close>

definition utf8_bytes :: "nat \<Rightarrow> byte list" where
  "utf8_bytes cp =
     (if cp < 128 then [of_nat cp]
      else if cp < 2048 then [of_nat (192 + cp div 64), of_nat (128 + cp mod 64)]
      else if cp < 65536
        then [of_nat (224 + cp div 4096), of_nat (128 + cp div 64 mod 64), of_nat (128 + cp mod 64)]
      else [of_nat (240 + cp div 262144), of_nat (128 + cp div 4096 mod 64),
            of_nat (128 + cp div 64 mod 64), of_nat (128 + cp mod 64)])"

definition high_surrogate :: "nat \<Rightarrow> bool" where
  "high_surrogate n = (55296 \<le> n \<and> n < 56320)"

definition low_surrogate :: "nat \<Rightarrow> bool" where
  "low_surrogate n = (56320 \<le> n \<and> n < 57344)"

fun TextEncoder_encode :: "jsstring \<Rightarrow> byte list" where
  "TextEncoder_encode [] = []"
| "TextEncoder_encode [u] =
     utf8_bytes (if high_surrogate (unat u) \<or> low_surrogate (unat u) then 65533 else unat u)"
| "TextEncoder_encode (u # v # us) =
     (if high_surrogate (unat u) \<and> low_surrogate (unat v)
      then utf8_bytes (65536 + (unat u - 55296) * 1024 + (unat v - 56320))
             @ TextEncoder_encode us
      else utf8_bytes (if high_surrogate (unat u) \<or> low_surrogate (unat u)
                       then 65533 else unat u)
             @ TextEncoder_encode (v # us))"

record utf8_state =
  code_point :: nat
  bytes_seen :: nat
  bytes_needed :: nat
  lower_boundary :: nat
  upper_boundary :: nat

definition utf8_start :: utf8_state where
  "utf8_start =
     \<lparr> code_point = 0, bytes_seen = 0, bytes_needed = 0,
       lower_boundary = 128, upper_boundary = 191 \<rparr>"

function utf8_decoder :: "utf8_state \<Rightarrow> byte list \<Rightarrow> nat list" where
  "utf8_decoder st [] = (if bytes_needed st \<noteq> 0 then [65533] else [])"
| "utf8_decoder st (b # bs) =
     (let n = unat b
      in if bytes_needed st = 0 then
           (if n < 128 then n # utf8_decoder st bs
            else if 194 \<le> n \<and> n \<le> 223
              then utf8_decoder (st\<lparr>bytes_needed := 1, code_point := n mod 32\<rparr>) bs
            else if 224 \<le> n \<and> n \<le> 239
              then utf8_decoder
                     (st\<lparr>lower_boundary := (if n = 224 then 160 else 128),
                         upper_boundary := (if n = 237 then 159 else 191),
                         bytes_needed := 2, code_point := n mod 16\<rparr>) bs
            else if 240 \<le> n \<and> n \<le> 244
              then utf8_decoder
                     (st\<lparr>lower_boundary := (if n = 240 then 144 else 128),
                         upper_boundary := (if n = 244 then 143 else 191),
                         bytes_needed := 3, code_point := n mod 8\<rparr>) bs
            else 65533 # utf8_decoder st bs)
         else if n < lower_boundary st \<or> upper_boundary st < n
           then 65533 # utf8_decoder utf8_start (b # bs)
         else if Suc (bytes_seen st) = bytes_needed st
           then (code_point st * 64 + n mod 64) # utf8_decoder utf8_start bs
         else utf8_decoder
                (st\<lparr>lower_boundary := 128, upper_boundary := 191,
                    code_point := code_point st * 64 + n mod 64,
                    bytes_seen := Suc (bytes_seen st)\<rparr>) bs)"
  by pat_completeness auto
termination
  by (relation "measure (\<lambda>(st, bs). 2 * length bs + (if bytes_needed st = 0 then 0 else 1))")
    (auto simp: utf8_start_def)

definition utf16_units :: "nat \<Rightarrow> jsstring" where
  "utf16_units cp =
     (if cp < 65536 then [of_nat cp]
      else [of_nat (55296 + (cp - 65536) div 1024), of_nat (56320 + (cp - 65536) mod 1024)])"

definition TextDecoder_decode :: "byte list \<Rightarrow> jsstring" where
  "TextDecoder_decode bytes =
     concat (map utf16_units
       (utf8_decoder utf8_start
          (if take 3 bytes = [239, 187, 191] then drop 3 bytes else bytes)))"

text \<open>
  The cipher and the base64 coding of the platform are stood in for: a shift by the key byte
  as the cipher, and binary strings as their own base64 form.
\<close>

definition demo_platform :: "byte platform" where
  "demo_platform =
     \<lparr> text_encode = TextEncoder_encode,
       text_decode = TextDecoder_decode,
       subtle_encrypt = (\<lambda>key iv data. Some (map (\<lambda>b. b + key) data)),
       subtle_decrypt = (\<lambda>key iv data. Some (map (\<lambda>b. b - key) data)),
       btoa = (\<lambda>binary. if list_all (\<lambda>u. u < 256) binary then Some binary else None),
       atob = Some \<rparr>"

definition demo_iv :: "byte list" where
  "demo_iv = [1, 2, 3, 4, 5, 6, 7, 8, 9, 10, 11, 12]"

text \<open>The plaintexts \<open>hi\<close>; \<open>h\<close>, U+00E9, U+4E16, U+1F680; U+FEFF, \<open>hi\<close>; and a lone U+D800.\<close>

definition text_hi :: jsstring where
  "text_hi = [104, 105]"

definition text_multibyte :: jsstring where
  "text_multibyte = [104, 233, 19990, 55357, 56960]"

definition text_bom_hi :: jsstring where
  "text_bom_hi = [65279, 104, 105]"

definition text_lone_surrogate :: jsstring where
  "text_lone_surrogate = [55296]"

section \<open>Evaluation of concrete histories\<close>

lemmas handler_defs =
  step_def on_connection_def on_message_def on_close_def transport_closing_def
  handleMessage_def handleRegister_def handleJoinRoom_def handleLeaveRoom_def
  handleChatMessage_def handleWebRTCSignaling_def handleCallUser_def handleCallResponse_def
  handleEndCall_def leaveRoom_def broadcastToRoom_def is_open_def findClientByUserId_def
  Date_now_def set_add_def set_delete_def obj_def members_def
  register_def register_value_def join_room_def leave_room_def chat_message_def chat_value_def
  signal_def Recv_def nested_def unprintable_def

lemma fst_run_append: "fst (run (es @ es') s) = fst (run es' (fst (run es s)))"
  by (induction es arbitrary: s) (simp_all add: case_prod_beta)

lemma after_append: "after (es @ es') = fst (run es' (after es))"
  by (simp add: after_def fst_run_append)

lemma after_alice_connected:
  "after alice_connected =
     \<lparr>clients = [(''A'', \<lparr>userId = JNull, roomId = JNull, readyState = 1\<rparr>)],
      rooms = Map.empty, ticks = 1, crashed = False\<rparr>"
  unfolding alice_connected_def after_def init_def by (simp add: handler_defs Let_def)

lemma after_alice_registered:
  "after alice_registered =
     \<lparr>clients = [(''A'', \<lparr>userId = JStr ''alice'', roomId = JNull, readyState = 1\<rparr>)],
      rooms = Map.empty, ticks = 2, crashed = False\<rparr>"
  unfolding alice_registered_def after_append after_alice_connected
  by (simp add: handler_defs Let_def)

lemma after_alice_in_r1:
  "after alice_in_r1 =
     \<lparr>clients = [(''A'', \<lparr>userId = JStr ''alice'', roomId = JStr ''r1'', readyState = 1\<rparr>)],
      rooms = [JStr ''r1'' \<mapsto> [''A'']], ticks = 4, crashed = False\<rparr>"
  unfolding alice_in_r1_def after_append after_alice_registered
  by (simp add: handler_defs Let_def)

lemma after_bob_registered:
  "after bob_registered =
     \<lparr>clients = [(''A'', \<lparr>userId = JStr ''alice'', roomId = JStr ''r1'', readyState = 1\<rparr>),
                 (''B'', \<lparr>userId = JStr ''bob'', roomId = JNull, readyState = 1\<rparr>)],
      rooms = [JStr ''r1'' \<mapsto> [''A'']], ticks = 6, crashed = False\<rparr>"
  unfolding bob_registered_def after_append after_alice_in_r1
  by (simp add: handler_defs Let_def)

lemma after_both_in_r1:
  "after both_in_r1 =
     \<lparr>clients = [(''A'', \<lparr>userId = JStr ''alice'', roomId = JStr ''r1'', readyState = 1\<rparr>),
                 (''B'', \<lparr>userId = JStr ''bob'', roomId = JStr ''r1'', readyState = 1\<rparr>)],
      rooms = [JStr ''r1'' \<mapsto> [''A'', ''B'']], ticks = 8, crashed = False\<rparr>"
  unfolding both_in_r1_def after_append after_bob_registered
  by (simp add: handler_defs Let_def)

lemma after_bob_closing:
  "after bob_closing =
     \<lparr>clients = [(''A'', \<lparr>userId = JStr ''alice'', roomId = JStr ''r1'', readyState = 1\<rparr>),
                 (''B'', \<lparr>userId = JStr ''bob'', roomId = JStr ''r1'', readyState = 2\<rparr>)],
      rooms = [JStr ''r1'' \<mapsto> [''A'', ''B'']], ticks = 8, crashed = False\<rparr>"
  unfolding bob_closing_def after_append after_both_in_r1
  by (simp add: handler_defs Let_def)

lemma after_two_registered:
  "after two_registered =
     \<lparr>clients = [(''A'', \<lparr>userId = JStr ''alice'', roomId = JNull, readyState = 1\<rparr>),
                 (''B'', \<lparr>userId = JStr ''bob'', roomId = JNull, readyState = 1\<rparr>)],
      rooms = Map.empty, ticks = 4, crashed = False\<rparr>"
  unfolding two_registered_def after_append after_alice_registered
  by (simp add: handler_defs Let_def)

lemma after_empty_then_r1:
  "after empty_then_r1 =
     \<lparr>clients = [(''A'', \<lparr>userId = JStr ''alice'', roomId = JStr ''r1'', readyState = 1\<rparr>)],
      rooms = [JStr [] \<mapsto> [''A''], JStr ''r1'' \<mapsto> [''A'']], ticks = 6, crashed = False\<rparr>"
  unfolding empty_then_r1_def after_append after_alice_registered
  by (simp add: handler_defs Let_def)

lemma after_nested_in_r1:
  "after nested_in_r1 =
     \<lparr>clients = [(''A'', \<lparr>userId = JRef 0 False True, roomId = JStr ''r1'', readyState = 1\<rparr>)],
      rooms = [JStr ''r1'' \<mapsto> [''A'']], ticks = 3, crashed = False\<rparr>"
  unfolding nested_in_r1_def after_append after_alice_connected
  by (simp add: handler_defs Let_def)

lemma after_nested_left_r1:
  "after nested_left_r1 =
     \<lparr>clients = [(''A'', \<lparr>userId = JRef 0 False True, roomId = JStr ''r1'', readyState = 1\<rparr>)],
      rooms = [JStr ''r1'' \<mapsto> []], ticks = 4, crashed = False\<rparr>"
  unfolding nested_left_r1_def after_append after_nested_in_r1
  by (simp add: handler_defs Let_def)

lemma after_unprintable_and_bob:
  "after unprintable_and_bob =
     \<lparr>clients = [(''A'', \<lparr>userId = JRef 1 True False, roomId = JNull, readyState = 1\<rparr>),
                 (''B'', \<lparr>userId = JStr ''bob'', roomId = JNull, readyState = 1\<rparr>)],
      rooms = Map.empty, ticks = 4, crashed = False\<rparr>"
  unfolding unprintable_and_bob_def after_append after_alice_connected
  by (simp add: handler_defs Let_def)

section \<open>Rooms are sets\<close>

lemma distinct_set_delete [simp]: "distinct xs \<Longrightarrow> distinct (set_delete x xs)"
  by (simp add: set_delete_def distinct_removeAll)

lemma distinct_set_add [simp]: "distinct xs \<Longrightarrow> distinct (set_add x xs)"
  by (simp add: set_add_def)

lemma rooms_distinct_ticks [simp]: "rooms_distinct (s\<lparr>ticks := n\<rparr>) = rooms_distinct s"
  by (simp add: rooms_distinct_def)

lemma rooms_distinct_clients [simp]: "rooms_distinct (s\<lparr>clients := cs\<rparr>) = rooms_distinct s"
  by (simp add: rooms_distinct_def)

lemma rooms_distinct_crashed [simp]: "rooms_distinct (s\<lparr>crashed := b\<rparr>) = rooms_distinct s"
  by (simp add: rooms_distinct_def)

lemma rooms_distinct_update:
  "rooms_distinct s \<Longrightarrow> distinct room \<Longrightarrow> rooms_distinct (s\<lparr>rooms := (rooms s)(rid \<mapsto> room)\<rparr>)"
  by (simp add: rooms_distinct_def)

lemma rooms_distinct_remove:
  "rooms_distinct s \<Longrightarrow> rooms_distinct (s\<lparr>rooms := (rooms s)(rid := None)\<rparr>)"
  by (simp add: rooms_distinct_def)

lemma rooms_distinct_room: "rooms_distinct s \<Longrightarrow> rooms s rid = Some room \<Longrightarrow> distinct room"
  by (auto simp: rooms_distinct_def)


lemma leaveRoom_rooms:
  "rooms (fst (leaveRoom cid rid s)) = rooms s \<or>
   (\<exists>room. rooms s rid = Some room \<and>
      (rooms (fst (leaveRoom cid rid s)) = (rooms s)(rid \<mapsto> set_delete cid room) \<or>
       rooms (fst (leaveRoom cid rid s)) = (rooms s)(rid := None)))"
  by (cases "rooms s rid")
    (auto simp: leaveRoom_def Let_def Date_now_def case_prod_beta split: option.splits sum.splits)

lemma rooms_distinct_leaveRoom:
  assumes "rooms_distinct s"
  shows "rooms_distinct (fst (leaveRoom cid rid s))"
  using leaveRoom_rooms [of cid rid s] assms
  by (auto simp: rooms_distinct_def split: if_splits)


lemma rooms_distinct_handleJoinRoom:
  assumes "rooms_distinct s"
  shows "rooms_distinct (fst (handleJoinRoom cid rid s))"
proof (cases "map_of (clients s) cid")
  case None
  with assms show ?thesis by (simp add: handleJoinRoom_def)
next
  case (Some c)
  show ?thesis
  proof (cases "truthy (userId c)")
    case False
    with Some assms show ?thesis by (simp add: handleJoinRoom_def)
  next
    case True
    define r where "r = (if truthy (roomId c) then leaveRoom cid (roomId c) s else (s, [], None))"
    have d: "rooms_distinct (fst r)"
      using assms by (simp add: r_def rooms_distinct_leaveRoom)
    show ?thesis
    proof (cases "snd (snd r)")
      case (Some e)
      with \<open>map_of (clients s) cid = Some c\<close> True d show ?thesis
        by (simp add: handleJoinRoom_def r_def [symmetric] case_prod_beta)
    next
      case None
      have "distinct (set_add cid (case rooms (fst r) rid of None \<Rightarrow> [] | Some x \<Rightarrow> x))"
        using d by (auto simp: rooms_distinct_def split: option.splits)
      with d have "rooms_distinct ((fst r)\<lparr>rooms := (rooms (fst r))(rid \<mapsto>
           set_add cid (case rooms (fst r) rid of None \<Rightarrow> [] | Some x \<Rightarrow> x))\<rparr>)"
        by (rule rooms_distinct_update)
      with None \<open>map_of (clients s) cid = Some c\<close> True show ?thesis
        by (simp add: handleJoinRoom_def r_def [symmetric] case_prod_beta Let_def Date_now_def
            rooms_distinct_def split: sum.splits)
    qed
  qed
qed

lemma rooms_distinct_handleMessage:
  assumes "rooms_distinct s"
  shows "rooms_distinct (fst (handleMessage cid p s))"
proof -
  have 1: "rooms_distinct (fst (handleRegister cid u s))" for u
    using assms
    by (simp add: handleRegister_def Let_def Date_now_def split: option.splits)
  have 2: "rooms_distinct (fst (handleLeaveRoom cid s))"
    using assms by (simp add: handleLeaveRoom_def rooms_distinct_leaveRoom split: option.splits)
  have 3: "rooms_distinct (fst (handleChatMessage cid m s))" for m
    using assms
    by (simp add: handleChatMessage_def Let_def Date_now_def split: option.splits sum.splits)
  have 4: "rooms_distinct (fst (handleWebRTCSignaling cid m s))" for m
    using assms
    by (simp add: handleWebRTCSignaling_def Let_def Date_now_def split: option.splits)
  have 5: "rooms_distinct (fst (handleCallUser cid m s))" for m
    using assms
    by (simp add: handleCallUser_def Let_def Date_now_def split: option.splits)
  have 6: "rooms_distinct (fst (handleCallResponse cid m s))" for m
    using assms
    by (simp add: handleCallResponse_def Let_def Date_now_def split: option.splits)
  have 7: "rooms_distinct (fst (handleEndCall cid m s))" for m
    using assms
    by (simp add: handleEndCall_def Let_def Date_now_def split: option.splits)
  show ?thesis
    using assms 1 2 3 4 5 6 7 rooms_distinct_handleJoinRoom [OF assms]
    by (simp add: handleMessage_def split: option.splits parsed.splits)
qed

lemma fst_on_message:
  "fst (on_message cid data s) = (case data of None \<Rightarrow> s | Some p \<Rightarrow> fst (handleMessage cid p s))"
  by (simp add: on_message_def split: option.splits prod.splits)

lemma rooms_distinct_on_message: "rooms_distinct s \<Longrightarrow> rooms_distinct (fst (on_message cid data s))"
  by (simp add: fst_on_message rooms_distinct_handleMessage split: option.splits)

lemma rooms_distinct_on_connection: "rooms_distinct s \<Longrightarrow> rooms_distinct (fst (on_connection cid s))"
  by (simp add: on_connection_def Date_now_def Let_def)

lemma rooms_distinct_on_close: "rooms_distinct s \<Longrightarrow> rooms_distinct (fst (on_close cid s))"
  using rooms_distinct_leaveRoom [of s cid]
  by (auto simp: on_close_def case_prod_beta Let_def split: option.splits)

lemma rooms_distinct_transport_closing: "rooms_distinct s \<Longrightarrow> rooms_distinct (transport_closing cid s)"
  by (simp add: transport_closing_def split: option.splits)

lemma rooms_distinct_step: "rooms_distinct s \<Longrightarrow> rooms_distinct (fst (step e s))"
  by (cases e)
    (simp_all add: step_def rooms_distinct_on_connection rooms_distinct_on_message
      rooms_distinct_on_close rooms_distinct_transport_closing)

lemma rooms_distinct_run: "rooms_distinct s \<Longrightarrow> rooms_distinct (fst (run es s))"
proof (induction es arbitrary: s)
  case Nil
  then show ?case by simp
next
  case (Cons e es)
  from Cons.prems have "rooms_distinct (fst (step e s))" by (rule rooms_distinct_step)
  then have "rooms_distinct (fst (run es (fst (step e s))))" by (rule Cons.IH)
  then show ?case by (simp add: case_prod_beta)
qed

lemma rooms_distinct_after: "rooms_distinct (after es)"
  unfolding after_def by (rule rooms_distinct_run) (simp add: rooms_distinct_def init_def)

section \<open>Rooms and membership\<close>

text \<open>
  C1, evaluated where it fails. Connection A registers with a \<open>userId\<close> on which
  \<open>JSON.stringify\<close> throws, joins r1 and sends leave-room. \<open>leaveRoom\<close> takes A out of the set
  of r1, the user-left broadcast throws in \<open>JSON.stringify\<close>, and the clean-up of the empty
  room is skipped: r1 stays a key of \<open>rooms\<close> with an empty member set, and the stored
  \<open>roomId\<close> of A still names it.
\<close>

theorem aborted_leave_keeps_empty_room:
  "rooms (after nested_left_r1) (JStr ''r1'') = Some [] \<and>
   members (after nested_left_r1) (JStr ''r1'') = [] \<and>
   map_of (clients (after nested_left_r1)) ''A'' =
     Some \<lparr>userId = nested, roomId = JStr ''r1'', readyState = 1\<rparr> \<and>
   snd (step (Recv ''A'' leave_room) (after nested_in_r1)) =
     [(''A'', ErrorEnv ''Invalid message format'')]"
  unfolding after_nested_left_r1 after_nested_in_r1
  by (simp add: handler_defs Let_def)

text \<open>
  C2, evaluated where it fails. \<open>handleJoinRoom\<close> leaves the current room only when the stored
  \<open>roomId\<close> is truthy. A connection that joined the room named by the empty string and then
  joins r1 is a member of both rooms, while its stored \<open>roomId\<close> names r1 only.
\<close>

theorem join_from_empty_named_room_keeps_both:
  "''A'' \<in> set (members (after empty_then_r1) (JStr [])) \<and>
   ''A'' \<in> set (members (after empty_then_r1) (JStr ''r1'')) \<and>
   map_of (clients (after empty_then_r1)) ''A'' =
     Some \<lparr>userId = JStr ''alice'', roomId = JStr ''r1'', readyState = 1\<rparr>"
  by (simp add: after_empty_then_r1 members_def)

section \<open>Call signaling\<close>

text \<open>
  C3, as the code has it. When \<open>targetUserId\<close> matches no connection: a call-user envelope
  from a sender with a truthy \<open>userId\<close>, and a webrtc-offer, webrtc-answer or
  webrtc-ice-candidate envelope from a sender with a truthy \<open>roomId\<close>, is answered to the
  sender alone with the error envelope \<open>Target user not found\<close>; a call-response or end-call
  envelope is dropped and nothing is sent to anyone. The state does not change.
\<close>

theorem unknown_target_reply:
  assumes "map_of (clients s) cid = Some c"
    and "findClientByUserId s (m ''targetUserId'') = None"
  shows
    "(m ''type'' = JStr ''call-user'' \<and> truthy (userId c) \<longrightarrow>
        on_message cid (Some (PValue m)) s = (s, [(cid, ErrorEnv ''Target user not found'')])) \<and>
     (m ''type'' \<in> {JStr ''webrtc-offer'', JStr ''webrtc-answer'', JStr ''webrtc-ice-candidate''}
        \<and> truthy (roomId c) \<longrightarrow>
        on_message cid (Some (PValue m)) s = (s, [(cid, ErrorEnv ''Target user not found'')])) \<and>
     (m ''type'' \<in> {JStr ''call-response'', JStr ''end-call''} \<longrightarrow>
        on_message cid (Some (PValue m)) s = (s, []))"
  using assms
  by (auto simp: on_message_def handleMessage_def handleCallUser_def handleWebRTCSignaling_def
      handleCallResponse_def handleEndCall_def)

text \<open>Alice, registered and in r1, signals carol, whom nobody is registered as.\<close>

theorem unknown_target_reply_witness:
  "on_message ''A'' (Some (PValue (signal ''call-user'' ''carol''))) (after bob_registered) =
     (after bob_registered, [(''A'', ErrorEnv ''Target user not found'')]) \<and>
   on_message ''A'' (Some (PValue (signal ''webrtc-offer'' ''carol''))) (after bob_registered) =
     (after bob_registered, [(''A'', ErrorEnv ''Target user not found'')]) \<and>
   on_message ''A'' (Some (PValue (signal ''end-call'' ''carol''))) (after bob_registered) =
     (after bob_registered, [])"
proof -
  let ?a = "\<lparr>userId = JStr ''alice'', roomId = JStr ''r1'', readyState = 1\<rparr>"
  have c: "map_of (clients (after bob_registered)) ''A'' = Some ?a"
    by (simp add: after_bob_registered)
  have n: "findClientByUserId (after bob_registered) (signal ty ''carol'' ''targetUserId'') = None"
    for ty
    by (simp add: after_bob_registered findClientByUserId_def signal_def obj_def)
  have ty: "signal ty ''carol'' ''type'' = JStr ty" for ty
    by (simp add: signal_def obj_def)
  from unknown_target_reply [where m = "signal ''call-user'' ''carol''", OF c n]
    unknown_target_reply [where m = "signal ''webrtc-offer'' ''carol''", OF c n]
    unknown_target_reply [where m = "signal ''end-call'' ''carol''", OF c n]
  show ?thesis by (simp add: ty)
qed

text \<open>
  The registered sender alice answers a call of carol, who is not there: no error envelope
  is sent.
\<close>

theorem unknown_target_reply_counterexample:
  "findClientByUserId (after two_registered) (JStr ''carol'') = None \<and>
   snd (step (Recv ''A'' (signal ''call-response'' ''carol'')) (after two_registered)) = []"
  unfolding after_two_registered by (simp add: handler_defs Let_def)

text \<open>
  C4, as the code has it. When \<open>targetUserId\<close> resolves to a connection (the first one in
  \<open>clients\<close> registered under it) and the values of the exchange are ones on which
  \<open>JSON.stringify\<close> and the string conversion of the log line return, as they do on every
  string, number, boolean and null, exactly one envelope is sent, to that connection, with
  the sender's \<open>userId\<close> as \<open>fromUserId\<close>: incoming-call, call-response and call-ended for a
  sender with a truthy \<open>userId\<close>, in whatever rooms sender and target are or are not; the
  webrtc envelopes under their own type for a sender with a truthy \<open>roomId\<close>, in whatever
  room the target is or is not. A webrtc envelope from a sender in no room is dropped.
\<close>

theorem relay_to_target:
  assumes "map_of (clients s) cid = Some c"
    and "findClientByUserId s (m ''targetUserId'') = Some (tid, target)"
  shows
    "(m ''type'' = JStr ''call-user'' \<and> truthy (userId c)
        \<and> stringify_ok (userId c) \<and> stringify_ok (m ''callType'')
        \<and> to_string_ok (userId c) \<and> to_string_ok (m ''targetUserId'') \<longrightarrow>
        on_message cid (Some (PValue m)) s =
          (s\<lparr>ticks := Suc (ticks s)\<rparr>,
           [(tid, IncomingCall (userId c) (m ''callType'') (ticks s))])) \<and>
     (m ''type'' = JStr ''call-response'' \<and> truthy (userId c)
        \<and> stringify_ok (userId c) \<and> stringify_ok (m ''accepted'')
        \<and> to_string_ok (userId c) \<longrightarrow>
        on_message cid (Some (PValue m)) s =
          (s\<lparr>ticks := Suc (ticks s)\<rparr>,
           [(tid, CallResponse (userId c) (m ''accepted'') (ticks s))])) \<and>
     (m ''type'' = JStr ''end-call'' \<and> truthy (userId c)
        \<and> stringify_ok (userId c) \<and> to_string_ok (userId c) \<longrightarrow>
        on_message cid (Some (PValue m)) s =
          (s\<lparr>ticks := Suc (ticks s)\<rparr>, [(tid, CallEnded (userId c) (ticks s))])) \<and>
     (m ''type'' \<in> {JStr ''webrtc-offer'', JStr ''webrtc-answer'', JStr ''webrtc-ice-candidate''}
        \<and> truthy (roomId c) \<and> stringify_ok (userId c) \<and> stringify_ok (m ''data'') \<longrightarrow>
        on_message cid (Some (PValue m)) s =
          (s\<lparr>ticks := Suc (ticks s)\<rparr>,
           [(tid, Signaling (m ''type'') (userId c) (m ''data'') (ticks s))])) \<and>
     (m ''type'' \<in> {JStr ''webrtc-offer'', JStr ''webrtc-answer'', JStr ''webrtc-ice-candidate''}
        \<and> \<not> truthy (roomId c) \<longrightarrow>
        on_message cid (Some (PValue m)) s = (s, []))"
  using assms
  by (auto simp: on_message_def handleMessage_def handleCallUser_def handleWebRTCSignaling_def
      handleCallResponse_def handleEndCall_def Date_now_def)

text \<open>
  Alice and bob in no room: the three call envelopes reach bob and the offer is dropped.
  Alice in r1 and bob in no room: the offer reaches bob.
\<close>

theorem relay_to_target_witness:
  "snd (on_message ''A'' (Some (PValue (signal ''call-user'' ''bob''))) (after two_registered)) =
     [(''B'', IncomingCall (JStr ''alice'') JUndefined 4)] \<and>
   snd (on_message ''A'' (Some (PValue (signal ''call-response'' ''bob''))) (after two_registered)) =
     [(''B'', CallResponse (JStr ''alice'') JUndefined 4)] \<and>
   snd (on_message ''A'' (Some (PValue (signal ''end-call'' ''bob''))) (after two_registered)) =
     [(''B'', CallEnded (JStr ''alice'') 4)] \<and>
   snd (on_message ''A'' (Some (PValue (signal ''webrtc-offer'' ''bob''))) (after two_registered)) = [] \<and>
   snd (on_message ''A'' (Some (PValue (signal ''webrtc-offer'' ''bob''))) (after bob_registered)) =
     [(''B'', Signaling (JStr ''webrtc-offer'') (JStr ''alice'') JUndefined 6)]"
proof -
  let ?a = "\<lparr>userId = JStr ''alice'', roomId = JNull, readyState = 1\<rparr>"
  let ?a' = "\<lparr>userId = JStr ''alice'', roomId = JStr ''r1'', readyState = 1\<rparr>"
  let ?b = "\<lparr>userId = JStr ''bob'', roomId = JNull, readyState = 1\<rparr>"
  have c: "map_of (clients (after two_registered)) ''A'' = Some ?a"
    by (simp add: after_two_registered)
  have c': "map_of (clients (after bob_registered)) ''A'' = Some ?a'"
    by (simp add: after_bob_registered)
  have f: "findClientByUserId (after two_registered) (signal ty ''bob'' ''targetUserId'')
      = Some (''B'', ?b)" for ty
    by (simp add: after_two_registered findClientByUserId_def signal_def obj_def)
  have f': "findClientByUserId (after bob_registered) (signal ty ''bob'' ''targetUserId'')
      = Some (''B'', ?b)" for ty
    by (simp add: after_bob_registered findClientByUserId_def signal_def obj_def)
  have ty: "signal ty ''bob'' ''type'' = JStr ty" "signal ty ''bob'' ''callType'' = JUndefined"
    "signal ty ''bob'' ''accepted'' = JUndefined" "signal ty ''bob'' ''data'' = JUndefined"
    "signal ty ''bob'' ''targetUserId'' = JStr ''bob''" for ty
    by (simp_all add: signal_def obj_def)
  have t: "ticks (after two_registered) = 4" "ticks (after bob_registered) = 6"
    by (simp_all add: after_two_registered after_bob_registered)
  from relay_to_target [where m = "signal ''call-user'' ''bob''", OF c f]
    relay_to_target [where m = "signal ''call-response'' ''bob''", OF c f]
    relay_to_target [where m = "signal ''end-call'' ''bob''", OF c f]
    relay_to_target [where m = "signal ''webrtc-offer'' ''bob''", OF c f]
    relay_to_target [where m = "signal ''webrtc-offer'' ''bob''", OF c' f']
  show ?thesis by (simp add: ty t)
qed

text \<open>
  Alice and bob are registered and in no room; bob is found by his \<open>userId\<close>, and the
  webrtc-offer of alice for him is sent to nobody. And when the caller's \<open>userId\<close> is an
  object whose conversion to a string throws, the call reaches bob and the log line that
  follows throws: the caller is sent an error envelope as well, two envelopes in all.
\<close>

theorem relay_to_target_counterexample:
  "findClientByUserId (after two_registered) (JStr ''bob'') =
     Some (''B'', \<lparr>userId = JStr ''bob'', roomId = JNull, readyState = 1\<rparr>) \<and>
   snd (step (Recv ''A'' (signal ''webrtc-offer'' ''bob'')) (after two_registered)) = [] \<and>
   snd (step (Recv ''A'' (signal ''call-user'' ''bob'')) (after unprintable_and_bob)) =
     [(''B'', IncomingCall unprintable JUndefined 4),
      (''A'', ErrorEnv ''Invalid message format'')]"
  unfolding after_two_registered after_unprintable_and_bob
  by (simp add: handler_defs Let_def)

section \<open>Frames that do not parse\<close>

text \<open>
  C5, as the code has it. A frame that fails to parse is answered to its connection alone,
  with one error envelope whose message is \<open>Invalid message format\<close>; nothing is sent to
  another connection, the handler returns, and \<open>clients\<close> and \<open>rooms\<close> are as before.
\<close>

theorem parse_failure_reply:
  "on_message cid None s = (s, [(cid, ErrorEnv ''Invalid message format'')])"
  by (simp add: on_message_def)

text \<open>The reply to an unparsable frame is not the envelope \<open>Malformed envelope\<close>.\<close>

theorem parse_failure_reply_counterexample:
  "snd (step (Frame ''A'' None) (after alice_in_r1)) \<noteq> [(''A'', ErrorEnv ''Malformed envelope'')]"
  by (simp add: step_def on_message_def after_alice_in_r1)

section \<open>Joining and chatting\<close>

text \<open>
  C6, as the code has it. With alice (connection A) in r1, bob (connection B) joins r1: B is
  sent joined-room with \<open>users\<close> equal to alice, bob (the new member is added before the
  list is built), and A is sent user-joined with \<open>userId\<close> bob.
\<close>

theorem second_join_presence:
  "snd (step (Recv ''B'' (join_room ''r1'')) (after bob_registered)) =
     [(''B'', JoinedRoom (JStr ''r1'') [JStr ''alice'', JStr ''bob''] 6),
      (''A'', UserJoined (JStr ''bob'') 7)]"
  unfolding after_bob_registered by (simp add: handler_defs Let_def)

text \<open>The \<open>users\<close> list sent to B is not the list holding alice alone.\<close>

theorem second_join_presence_counterexample:
  "joined_room_users ''B'' (snd (step (Recv ''B'' (join_room ''r1'')) (after bob_registered)))
     \<noteq> [[JStr ''alice'']]"
  unfolding after_bob_registered
  by (simp add: handler_defs Let_def joined_room_users_def List.map_filter_simps)

text \<open>
  C7. A join-room envelope from a connection whose \<open>userId\<close> is null is answered to that
  connection with an error envelope and nothing else is sent; the state, so \<open>rooms\<close>, the
  \<open>roomId\<close> of the connection and every other client record, is unchanged.
\<close>

theorem join_room_requires_register:
  assumes "map_of (clients s) cid = Some c" and "userId c = JNull"
    and "m ''type'' = JStr ''join-room''"
  shows "on_message cid (Some (PValue m)) s =
           (s, [(cid, ErrorEnv ''Must register before joining room'')])"
  using assms by (simp add: on_message_def handleMessage_def handleJoinRoom_def)

theorem join_room_requires_register_witness:
  "map_of (clients (after alice_connected)) ''A'' =
     Some \<lparr>userId = JNull, roomId = JNull, readyState = 1\<rparr> \<and>
   on_message ''A'' (Some (PValue (join_room ''r1''))) (after alice_connected) =
     (after alice_connected, [(''A'', ErrorEnv ''Must register before joining room'')])"
proof -
  have c: "map_of (clients (after alice_connected)) ''A'' =
     Some \<lparr>userId = JNull, roomId = JNull, readyState = 1\<rparr>"
    by (simp add: after_alice_connected)
  have u: "userId \<lparr>userId = JNull, roomId = JNull, readyState = 1\<rparr> = JNull"
    by simp
  have ty: "join_room ''r1'' ''type'' = JStr ''join-room''"
    by (simp add: join_room_def obj_def)
  from join_room_requires_register [where m = "join_room ''r1''", OF c u ty] c
  show ?thesis by simp
qed

lemma is_open_ticks [simp]: "is_open (s\<lparr>ticks := n\<rparr>) = is_open s"
  by (simp add: is_open_def fun_eq_iff)

text \<open>
  C8, as the code has it. After any history, for a connection whose stored \<open>roomId\<close> is
  truthy and a chat-message envelope whose values (the sender's \<open>userId\<close>, \<open>message\<close> and
  \<open>encrypted\<close>) are ones on which \<open>JSON.stringify\<close> returns, as it does on every string,
  number, boolean and null: one and the same chat-message envelope, built once, is sent to
  each member of the room the \<open>roomId\<close> names whose client record has an OPEN transport,
  once to each, since no member is in the set twice, and to nobody else.
\<close>

theorem chat_message_copies:
  assumes "map_of (clients (after es)) cid = Some c" and "truthy (roomId c)"
    and "m ''type'' = JStr ''chat-message''"
    and "stringify_ok (userId c)" and "stringify_ok (m ''message'')"
    and "stringify_ok (m ''encrypted'')"
  shows "distinct (members (after es) (roomId c)) \<and>
     on_message cid (Some (PValue m)) (after es) =
       ((after es)\<lparr>ticks := Suc (ticks (after es))\<rparr>,
        map (\<lambda>cId. (cId, ChatMessage (userId c) (m ''message'') (m ''encrypted'')
                            (ticks (after es))))
            (filter (is_open (after es)) (members (after es) (roomId c))))"
proof
  show "distinct (members (after es) (roomId c))"
    using rooms_distinct_after [of es]
    by (auto simp: members_def rooms_distinct_def split: option.splits)
next
  show "on_message cid (Some (PValue m)) (after es) =
       ((after es)\<lparr>ticks := Suc (ticks (after es))\<rparr>,
        map (\<lambda>cId. (cId, ChatMessage (userId c) (m ''message'') (m ''encrypted'')
                            (ticks (after es))))
            (filter (is_open (after es)) (members (after es) (roomId c))))"
    using assms
    by (simp add: on_message_def handleMessage_def handleChatMessage_def Date_now_def
        broadcastToRoom_def members_def split: option.splits)
qed

text \<open>Alice and bob in r1, both transports OPEN: alice's message goes to both.\<close>

theorem chat_message_copies_witness:
  "map_of (clients (after both_in_r1)) ''A'' =
     Some \<lparr>userId = JStr ''alice'', roomId = JStr ''r1'', readyState = 1\<rparr> \<and>
   snd (on_message ''A'' (Some (PValue (chat_message ''hi''))) (after both_in_r1)) =
     [(''A'', ChatMessage (JStr ''alice'') (JStr ''hi'') (JBool False) 8),
      (''B'', ChatMessage (JStr ''alice'') (JStr ''hi'') (JBool False) 8)]"
proof -
  let ?a = "\<lparr>userId = JStr ''alice'', roomId = JStr ''r1'', readyState = 1\<rparr>"
  have c: "map_of (clients (after both_in_r1)) ''A'' = Some ?a"
    by (simp add: after_both_in_r1)
  have t: "truthy (roomId ?a)" and u: "stringify_ok (userId ?a)"
    by simp_all
  have ty: "chat_message ''hi'' ''type'' = JStr ''chat-message''"
    and ms: "stringify_ok (chat_message ''hi'' ''message'')"
    and en: "stringify_ok (chat_message ''hi'' ''encrypted'')"
    by (simp_all add: chat_message_def chat_value_def obj_def)
  from chat_message_copies [where m = "chat_message ''hi''", OF c t ty u ms en] c
  show ?thesis
    by (simp add: after_both_in_r1 is_open_def members_def chat_message_def chat_value_def obj_def)
qed

text \<open>
  Alice and bob in r1, the transport of bob CLOSING: the room has two members and alice's
  message is sent once, to alice. And with both transports OPEN, a message on which
  \<open>JSON.stringify\<close> throws is sent to nobody: alice gets an error envelope.
\<close>

theorem chat_message_copies_counterexample:
  "members (after bob_closing) (JStr ''r1'') = [''A'', ''B''] \<and>
   snd (step (Recv ''A'' (chat_message ''hi'')) (after bob_closing)) =
     [(''A'', ChatMessage (JStr ''alice'') (JStr ''hi'') (JBool False) 8)] \<and>
   members (after both_in_r1) (JStr ''r1'') = [''A'', ''B''] \<and>
   snd (step (Recv ''A'' (chat_value nested)) (after both_in_r1)) =
     [(''A'', ErrorEnv ''Invalid message format'')]"
  unfolding after_bob_closing after_both_in_r1 by (simp add: handler_defs Let_def)

lemma broadcast_not_UndefinedClient:
  "broadcastToRoom rid msg ex s = Inl e \<Longrightarrow> e \<noteq> UndefinedClient"
  by (auto simp: broadcastToRoom_def split: option.splits if_splits)

lemma left_not_UndefinedClient: "snd (snd (leaveRoom cid rid s)) \<noteq> Some UndefinedClient"
proof (cases "rooms s rid")
  case None
  then show ?thesis by (simp add: leaveRoom_def Let_def split: option.splits)
next
  case (Some room)
  then show ?thesis
    by (auto simp: leaveRoom_def Let_def case_prod_beta split: option.splits sum.splits
        dest: broadcast_not_UndefinedClient)
qed

lemma joined_not_UndefinedClient:
  assumes "map_of (clients s) cid = Some c"
  shows "snd (snd (handleJoinRoom cid rid s)) \<noteq> Some UndefinedClient"
proof (cases "truthy (userId c)")
  case False
  with assms show ?thesis by (simp add: handleJoinRoom_def)
next
  case True
  define r where "r = (if truthy (roomId c) then leaveRoom cid (roomId c) s else (s, [], None))"
  have l: "snd (snd r) \<noteq> Some UndefinedClient"
    by (simp add: r_def left_not_UndefinedClient)
  show ?thesis
  proof (cases "snd (snd r)")
    case (Some e)
    with assms True l show ?thesis
      by (simp add: handleJoinRoom_def r_def [symmetric] case_prod_beta)
  next
    case None
    with assms True show ?thesis
      by (auto simp: handleJoinRoom_def r_def [symmetric] case_prod_beta Let_def
          split: sum.splits dest: broadcast_not_UndefinedClient)
  qed
qed

text \<open>
  C10. \<open>handleMessage\<close> never ends in the read of a property of a missing client record: for
  a connection id that is not a key of \<open>clients\<close> it returns before the dispatch, with nothing
  changed and nothing sent, although \<open>handleJoinRoom\<close> and \<open>handleChatMessage\<close>, called on
  their own with such an id, would read \<open>client.ws\<close> of no client.
\<close>

theorem handlers_never_see_missing_client:
  "snd (snd (handleMessage cid p s)) \<noteq> Some UndefinedClient \<and>
   (map_of (clients s) cid = None \<longrightarrow>
      handleMessage cid p s = (s, [], None) \<and>
      handleJoinRoom cid rid s = (s, [], Some UndefinedClient) \<and>
      handleChatMessage cid m s = (s, [], Some UndefinedClient))"
proof (cases "map_of (clients s) cid")
  case None
  then show ?thesis
    by (simp add: handleMessage_def handleJoinRoom_def handleChatMessage_def)
next
  case (Some c)
  have 1: "snd (snd (handleRegister cid u s)) \<noteq> Some UndefinedClient" for u
    by (simp add: handleRegister_def Let_def case_prod_beta split: option.splits)
  have 2: "snd (snd (handleJoinRoom cid r s)) \<noteq> Some UndefinedClient" for r
    using Some by (rule joined_not_UndefinedClient)
  have 3: "snd (snd (handleLeaveRoom cid s)) \<noteq> Some UndefinedClient"
    by (simp add: handleLeaveRoom_def left_not_UndefinedClient split: option.splits)
  have 4: "snd (snd (handleChatMessage cid m' s)) \<noteq> Some UndefinedClient" for m'
    using Some
    by (auto simp: handleChatMessage_def Let_def case_prod_beta
        split: sum.splits dest: broadcast_not_UndefinedClient)
  have 5: "snd (snd (handleWebRTCSignaling cid m' s)) \<noteq> Some UndefinedClient" for m'
    by (simp add: handleWebRTCSignaling_def Let_def case_prod_beta split: option.splits)
  have 6: "snd (snd (handleCallUser cid m' s)) \<noteq> Some UndefinedClient" for m'
    by (simp add: handleCallUser_def Let_def case_prod_beta split: option.splits)
  have 7: "snd (snd (handleCallResponse cid m' s)) \<noteq> Some UndefinedClient" for m'
    by (simp add: handleCallResponse_def Let_def case_prod_beta split: option.splits)
  have 8: "snd (snd (handleEndCall cid m' s)) \<noteq> Some UndefinedClient" for m'
    by (simp add: handleEndCall_def Let_def case_prod_beta split: option.splits)
  from Some 1 2 3 4 5 6 7 8 show ?thesis
    by (simp add: handleMessage_def split: parsed.splits)
qed

theorem handlers_never_see_missing_client_witness:
  "map_of (clients init) ''A'' = None \<and>
   handleMessage ''A'' (PValue (join_room ''r1'')) init = (init, [], None) \<and>
   handleJoinRoom ''A'' (JStr ''r1'') init = (init, [], Some UndefinedClient) \<and>
   handleChatMessage ''A'' (chat_message ''hi'') init = (init, [], Some UndefinedClient)"
proof -
  have n: "map_of (clients init) ''A'' = None"
    by (simp add: init_def)
  from handlers_never_see_missing_client
    [of "''A''" "PValue (join_room ''r1'')" init "JStr ''r1''" "chat_message ''hi''"] n
  show ?thesis by simp
qed

section \<open>Encryption round trip\<close>

lemma binary_loop_eq:
  "i \<le> length bytes \<Longrightarrow>
     binary_loop bytes i binary = binary @ map String_fromCharCode (drop i bytes)"
proof (induction bytes i binary rule: binary_loop.induct)
  case (1 bytes i binary)
  show ?case
  proof (cases "i < length bytes")
    case True
    then have "drop i bytes = bytes ! i # drop (Suc i) bytes"
      by (simp add: Cons_nth_drop_Suc)
    with True 1 show ?thesis
      by (subst binary_loop.simps) simp
  next
    case False
    with 1 show ?thesis by (subst binary_loop.simps) simp
  qed
qed

lemma bytes_loop_eq:
  "i \<le> length binary \<Longrightarrow> length bytes = length binary \<Longrightarrow>
     bytes_loop binary i bytes = take i bytes @ map Uint8_store (drop i binary)"
proof (induction binary i bytes rule: bytes_loop.induct)
  case (1 binary i bytes)
  show ?case
  proof (cases "i < length binary")
    case True
    then have d: "drop i binary = binary ! i # drop (Suc i) binary"
      by (simp add: Cons_nth_drop_Suc)
    from True 1 have "bytes_loop binary (Suc i) (bytes[i := Uint8_store (binary ! i)])
        = take (Suc i) (bytes[i := Uint8_store (binary ! i)])
            @ map Uint8_store (drop (Suc i) binary)"
      by simp
    also have "take (Suc i) (bytes[i := Uint8_store (binary ! i)])
        = take i bytes @ [Uint8_store (binary ! i)]"
      using True 1(3) by (simp add: take_Suc_conv_app_nth)
    finally show ?thesis
      using True d by (subst bytes_loop.simps) simp
  next
    case False
    with 1 show ?thesis by (subst bytes_loop.simps) simp
  qed
qed

lemma store_fromCharCode: "Uint8_store (String_fromCharCode b) = b"
  unfolding Uint8_store_def String_fromCharCode_def
  by (rule bit_word_eqI) (auto simp: bit_simps)

lemma fromCharCode_small: "String_fromCharCode b < 256"
proof -
  have "uint (ucast b :: 16 word) = uint b"
    by (rule uint_up_ucast) (simp add: is_up)
  moreover have "uint b < 256"
    using uint_bounded [of b] by simp
  ultimately show ?thesis
    by (simp add: word_less_def String_fromCharCode_def)
qed

lemma Uint8Array_set_both:
  "Uint8Array_set (Uint8Array_set (replicate (length a + length b) 0) a 0) b (length a) = a @ b"
  by (simp add: Uint8Array_set_def)

lemma bytes_of_binary:
  "bytes_loop (binary_loop bytes 0 []) 0 (replicate (length (binary_loop bytes 0 [])) 0) = bytes"
  by (simp add: binary_loop_eq bytes_loop_eq store_fromCharCode comp_def)

text \<open>
  What the module adds to the platform is lossless: with a cipher that decrypts what it
  encrypted and an \<open>atob\<close> that inverts \<open>btoa\<close>, the round trip returns the decoding of the
  encoding of the plaintext.
\<close>

lemma round_trip_decodes:
  assumes iv: "length iv = 12"
    and gcm: "\<forall>data. \<exists>ct. subtle_encrypt P key iv data = Some ct
                \<and> subtle_decrypt P key iv ct = Some data"
    and b64: "\<forall>binary. (\<forall>u\<in>set binary. u < 256)
                \<longrightarrow> (\<exists>s. btoa P binary = Some s \<and> atob P s = Some binary)"
  shows "round_trip P message key iv = Some (text_decode P (text_encode P message))"
proof -
  from gcm obtain ct where enc: "subtle_encrypt P key iv (text_encode P message) = Some ct"
    and dec: "subtle_decrypt P key iv ct = Some (text_encode P message)"
    by blast
  define binary where "binary = binary_loop (iv @ ct) 0 []"
  have "\<forall>u\<in>set binary. u < 256"
    by (auto simp: binary_def binary_loop_eq fromCharCode_small)
  with b64 obtain s where s: "btoa P binary = Some s" "atob P s = Some binary"
    by blast
  have e: "encryptMessage P message key iv = Some s"
    by (simp add: encryptMessage_def enc Uint8Array_set_both arrayBufferToBase64_def
        s binary_def [symmetric])
  have "base64ToArrayBuffer P s = Some (iv @ ct)"
    using bytes_of_binary [of "iv @ ct"] by (simp add: base64ToArrayBuffer_def s binary_def)
  then have "decryptMessage P s key = Some (text_decode P (text_encode P message))"
    by (simp add: decryptMessage_def iv dec)
  with e show ?thesis by (simp add: round_trip_def)
qed

lemmas codec_defs = utf8_bytes_def high_surrogate_def low_surrogate_def utf8_start_def
  utf16_units_def TextDecoder_decode_def Let_def

lemma demo_platform_iv: "length demo_iv = 12"
  by (simp add: demo_iv_def)

lemma demo_platform_gcm:
  "\<forall>data. \<exists>ct. subtle_encrypt demo_platform key iv data = Some ct
      \<and> subtle_decrypt demo_platform key iv ct = Some data"
  by (simp add: demo_platform_def comp_def)

lemma demo_platform_b64:
  "\<forall>binary. (\<forall>u\<in>set binary. u < 256)
      \<longrightarrow> (\<exists>s. btoa demo_platform binary = Some s \<and> atob demo_platform s = Some binary)"
  by (simp add: demo_platform_def list_all_iff)

lemma demo_round_trip:
  "round_trip demo_platform message key demo_iv
     = Some (TextDecoder_decode (TextEncoder_encode message))"
  using round_trip_decodes [OF demo_platform_iv demo_platform_gcm demo_platform_b64]
  by (simp add: demo_platform_def)

lemma codec_hi: "TextDecoder_decode (TextEncoder_encode text_hi) = text_hi"
  by (simp add: text_hi_def codec_defs)

lemma codec_multibyte: "TextDecoder_decode (TextEncoder_encode text_multibyte) = text_multibyte"
  by (simp add: text_multibyte_def codec_defs)

lemma codec_bom_hi: "TextDecoder_decode (TextEncoder_encode text_bom_hi) = text_hi"
  by (simp add: text_bom_hi_def text_hi_def codec_defs)

lemma codec_lone_surrogate: "TextDecoder_decode (TextEncoder_encode text_lone_surrogate) = [65533]"
  by (simp add: text_lone_surrogate_def codec_defs)

text \<open>
  C9, as the code has it. On a platform whose AES-GCM decrypts under key and IV what it
  encrypted under them and whose \<open>atob\<close> inverts \<open>btoa\<close> on binary strings, for every key,
  every 12-byte IV and every plaintext that the text decoder gives back from the text
  encoder's bytes, \<open>encryptMessage\<close> returns and \<open>decryptMessage\<close> of what it returned, under
  the same key, returns exactly the plaintext.
\<close>

theorem encrypt_decrypt_round_trip:
  assumes iv: "length iv = 12"
    and gcm: "\<forall>data. \<exists>ct. subtle_encrypt P key iv data = Some ct
                \<and> subtle_decrypt P key iv ct = Some data"
    and b64: "\<forall>binary. (\<forall>u\<in>set binary. u < 256)
                \<longrightarrow> (\<exists>s. btoa P binary = Some s \<and> atob P s = Some binary)"
    and utf8: "text_decode P (text_encode P message) = message"
  shows "round_trip P message key iv = Some message"
  using round_trip_decodes [OF iv gcm b64, of message] utf8 by simp

text \<open>An ASCII plaintext and one with two-, three- and four-byte characters come back.\<close>

theorem encrypt_decrypt_round_trip_witness:
  "round_trip demo_platform text_hi 3 demo_iv = Some text_hi \<and>
   round_trip demo_platform text_multibyte 3 demo_iv = Some text_multibyte"
proof -
  have 1: "text_decode demo_platform (text_encode demo_platform text_hi) = text_hi"
    by (simp add: demo_platform_def codec_hi)
  have 2: "text_decode demo_platform (text_encode demo_platform text_multibyte) = text_multibyte"
    by (simp add: demo_platform_def codec_multibyte)
  from encrypt_decrypt_round_trip [OF demo_platform_iv demo_platform_gcm demo_platform_b64 1]
    encrypt_decrypt_round_trip [OF demo_platform_iv demo_platform_gcm demo_platform_b64 2]
  show ?thesis by simp
qed

text \<open>
  A plaintext that begins with U+FEFF comes back without it, and a lone surrogate comes back
  as U+FFFD.
\<close>

theorem encrypt_decrypt_round_trip_counterexample:
  "round_trip demo_platform text_bom_hi 3 demo_iv = Some text_hi \<and>
   round_trip demo_platform text_bom_hi 3 demo_iv \<noteq> Some text_bom_hi \<and>
   round_trip demo_platform text_lone_surrogate 3 demo_iv = Some [65533] \<and>
   round_trip demo_platform text_lone_surrogate 3 demo_iv \<noteq> Some text_lone_surrogate"
  unfolding demo_round_trip codec_bom_hi codec_lone_surrogate
  by (simp add: text_bom_hi_def text_hi_def text_lone_surrogate_def)

end
